theory Spec2Isabelle
  imports Main
begin

section \<open>Shared vocabulary\<close>

text \<open>
  A JavaScript \<open>Error\<close> is its message. What the code shows to the user, posts to the
  webview or asks of a collaborator is recorded as a list of events, in program order.
\<close>

datatype error = Error string

fun message :: "error \<Rightarrow> string" where
  "message (Error m) = m"

section \<open>The proxy agent selector (net.ts)\<close>




text \<open>The notifications of \<open>vscode.window\<close>.\<close>

datatype notification =
    showErrorMessage string
  | showWarningMessage string
  | showInformationMessage string




section \<open>The default merge method (pullRequestOverview.ts)\<close>

text \<open>
  \<open>MergeMethod\<close> is the string union \<open>'merge' | 'squash' | 'rebase'\<close> of interface.ts
  (the three literals of the \<open>methods\<close> array). \<open>MergeMethodsAvailability\<close> is an object
  keyed by method: a key may be missing (\<open>hasOwnProperty\<close> is asked), and a missing key
  reads as \<open>undefined\<close>, which is falsy.
\<close>

datatype MergeMethod = Merge | Squash | Rebase

type_synonym MergeMethodsAvailability = "MergeMethod \<rightharpoonup> bool"

definition hasOwnProperty :: "MergeMethodsAvailability \<Rightarrow> MergeMethod \<Rightarrow> bool" where
  "hasOwnProperty methodsAvailability k = (methodsAvailability k \<noteq> None)"

text \<open>\<open>methodsAvailability[method]\<close> read as a condition.\<close>

definition enabled :: "MergeMethodsAvailability \<Rightarrow> MergeMethod \<Rightarrow> bool" where
  "enabled methodsAvailability k = (methodsAvailability k = Some True)"

definition methods :: "MergeMethod list" where
  "methods = [Merge, Squash, Rebase]"

text \<open>
  The result is an option: \<open>Array.find\<close> answers \<open>undefined\<close> when no element passes,
  and the non-null assertion \<open>!\<close> is erased at run time.
\<close>

definition getDefaultMergeMethod ::
  "MergeMethodsAvailability \<Rightarrow> MergeMethod option \<Rightarrow> MergeMethod option" where
  "getDefaultMergeMethod methodsAvailability userPreferred =
     (case userPreferred of
        Some p \<Rightarrow>
          if hasOwnProperty methodsAvailability p \<and> enabled methodsAvailability p then Some p
          else find (enabled methodsAvailability) methods
      | None \<Rightarrow> find (enabled methodsAvailability) methods)"

text \<open>
  The specification's wording of the fallback, to compare with the code: the first
  enabled method in the order merge, squash, rebase.
\<close>

definition first_enabled_in_fixed_order :: "MergeMethodsAvailability \<Rightarrow> MergeMethod option" where
  "first_enabled_in_fixed_order a =
     (if a Merge = Some True then Some Merge
      else if a Squash = Some True then Some Squash
      else if a Rebase = Some True then Some Rebase
      else None)"

definition preferred_available :: "MergeMethodsAvailability \<Rightarrow> MergeMethod option \<Rightarrow> bool" where
  "preferred_available a userPreferred =
     (case userPreferred of None \<Rightarrow> False | Some p \<Rightarrow> a p = Some True)"

section \<open>The pull request overview panel: data\<close>

text \<open>
  The types of interface.ts, pullRequestModel.ts and the other modules the panel
  imports are not under src; the records below hold the fields
  the panel reads or writes, under the names it uses. An optional boolean that is only
  tested for truth is a \<open>bool\<close>; any other optional field is an \<open>option\<close>.
\<close>

record IAccount =
  login :: string
  name :: string

record ReviewState =
  reviewer :: IAccount
  state :: string

text \<open>A review as the review calls answer it (\<open>ReviewEvent\<close> of timelineEvent.ts).\<close>

record CommonReviewEvent =
  user :: IAccount
  review_state :: string

datatype TimelineEvent = TimelineEvent string

record IMilestone =
  milestone_id :: string
  milestone_title :: string

record GitHubRef =
  ref :: string
  label :: string
  repositoryCloneUrl :: string

record GitHubRemote =
  remoteName :: string
  normalizedHost :: string
  owner :: string
  repositoryName :: string

datatype GithubItemStateEnum = Open | Closed | Merged

record PullRequestModel =
  number :: nat
  title :: string
  html_url :: string
  author :: IAccount
  item_state :: GithubItemStateEnum
  base :: GitHubRef
  head :: "GitHubRef option"
  isRemoteBaseDeleted :: bool
  isRemoteHeadDeleted :: bool
  isDraft :: bool
  remote :: GitHubRemote
  milestone :: "IMilestone option"
  assignees :: "IAccount list option"
  canEdit :: bool

text \<open>
  Modelled from the spec: \<open>PullRequestModel.isResolved\<close> is not under src. The
  specification calls a pull request resolved when it has concrete head refs; the
  panel reads \<open>head.ref\<close> only behind this test.
\<close>

definition isResolved :: "PullRequestModel \<Rightarrow> bool" where
  "isResolved pr = (head pr \<noteq> None)"

text \<open>What \<open>getBranchNameForPullRequest\<close> answers when a local branch is correlated.\<close>

record BranchInfo =
  branch :: string
  branch_remote :: "string option"
  createdForPullRequest :: bool
  remoteInUse :: bool

record PullRequestChecks =
  check_state :: "string option"
  statuses :: "string list"

record RepoAccessAndMergeMethods =
  hasWritePermission :: bool
  mergeMethodsAvailability :: MergeMethodsAvailability

text \<open>
  The panel object. \<open>panel_id\<close> is the object's identity; \<open>item\<close> and
  \<open>repositoryDefaultBranch\<close> are \<open>undefined\<close> until an update has succeeded; a
  manager is its identity; the listener field holds the manager it listens to;
  \<open>html\<close> is the argument \<open>getHtmlForWebview\<close> was last called with.
\<close>

record PullRequestOverviewPanel =
  panel_id :: nat
  item :: "PullRequestModel option"
  repositoryDefaultBranch :: "string option"
  existingReviewers :: "ReviewState list"
  folderRepositoryManager :: nat
  changeActivePullRequestListener :: "nat option"
  panel_title :: string
  html :: "string option"

subsection \<open>Messages and events\<close>

datatype Args =
    NoArgs
  | StringArg string
  | MergeArgs string string MergeMethod
  | CommentArg string

record IRequestMessage =
  req :: string
  command :: string
  args :: Args

datatype action_type = Upstream | Local | Remote | Suspend

text \<open>An item of the branch-deletion prompt; the suspend item sets no \<open>picked\<close>.\<close>

record action =
  action_label :: string
  action_description :: "string option"
  action_type :: action_type
  picked :: "bool option"

text \<open>What the user picked in the reviewer, assignee and milestone prompts.\<close>

record reviewer_item =
  reviewer_label :: string
  picked_reviewer :: IAccount

record assignee_item =
  assignee_label :: string
  picked_assignee :: IAccount

record milestone_item =
  milestone_label :: string
  item_id :: "string option"
  item_milestone :: "IMilestone option"

definition isMilestoneQuickPickItem :: "milestone_item \<Rightarrow> bool" where
  "isMilestoneQuickPickItem x =
     ((case item_id x of None \<Rightarrow> False | Some i \<Rightarrow> i \<noteq> []) \<and> item_milestone x \<noteq> None)"

text \<open>The snapshot posted as \<open>pr.initialize\<close>: the fields the panel derives, and of those
  copied from the pull request the ones this development reads.\<close>

record snapshot =
  snap_number :: nat
  snap_title :: string
  snap_url :: string
  snap_author :: IAccount
  snap_state :: GithubItemStateEnum
  snap_events :: "TimelineEvent list"
  snap_isCurrentlyCheckedOut :: bool
  snap_isRemoteBaseDeleted :: bool
  snap_base :: string
  snap_isRemoteHeadDeleted :: bool
  snap_isLocalHeadDeleted :: bool
  snap_head :: string
  snap_repositoryDefaultBranch :: string
  snap_canEdit :: bool
  snap_hasWritePermission :: bool
  snap_status :: PullRequestChecks
  snap_reviewers :: "ReviewState list"
  snap_isDraft :: bool
  snap_mergeMethodsAvailability :: MergeMethodsAvailability
  snap_defaultMergeMethod :: "MergeMethod option"
  snap_isIssue :: bool
  snap_milestone :: "IMilestone option"
  snap_assignees :: "IAccount list option"
  snap_continueOnGitHub :: bool
  snap_isAuthor :: bool

datatype out_message =
    set_scroll
  | pr_initialize snapshot
  | pr_deleteBranch "action_type list"

text \<open>The payload of a reply (\<open>_replyMessage\<close>), and of an error signal (\<open>_throwError\<close>).\<close>

datatype reply =
    Empty
  | Cancelled
  | IsCurrentlyCheckedOut bool
  | NewState GithubItemStateEnum
  | IsDraft bool
  | Review "CommonReviewEvent option" "ReviewState list"
  | Mergeability string
  | AddedReviewers "ReviewState list"
  | AddedMilestone "IMilestone option"
  | AddedAssignees "IAccount list"

datatype error_payload = EmptyObject | Text string

datatype quickPick =
    reviewersPick
  | milestonePick
  | assigneesPick
  | actionsPick "action list"

text \<open>
  An event is something the panel does to its surroundings: a notification, a message
  to the webview, a reply or an error signal for a request, a command, a prompt, a
  modal question, the reveal of the webview panel, or a mutating call of a collaborator
  (by name). Calls of the logger are left out.
\<close>

datatype event =
    window notification
  | postMessage out_message
  | replyMessage IRequestMessage reply
  | throwError IRequestMessage error_payload
  | executeCommand string
  | showQuickPick quickPick
  | modalWarning string
  | reveal "int option" bool
  | call string

text \<open>
  What running a handler leaves: the panel, the events in program order, and the
  error the returned promise rejects with, if any.
\<close>

record run =
  after :: PullRequestOverviewPanel
  events :: "event list"
  thrown :: "error option"

definition returns :: "PullRequestOverviewPanel \<Rightarrow> event list \<Rightarrow> run" where
  "returns p evs = \<lparr>after = p, events = evs, thrown = None\<rparr>"

definition rejects :: "PullRequestOverviewPanel \<Rightarrow> event list \<Rightarrow> error \<Rightarrow> run" where
  "rejects p evs e = \<lparr>after = p, events = evs, thrown = Some e\<rparr>"

text \<open>\<open>Number.prototype.toString\<close> on a natural number.\<close>

definition digit :: "nat \<Rightarrow> char" where
  "digit d = ''0123456789'' ! d"

function toString :: "nat \<Rightarrow> string" where
  "toString n = (if n < 10 then [digit n] else toString (n div 10) @ [digit (n mod 10)])"
  by pat_completeness auto
termination
  by (relation "measure id") auto

declare toString.simps [simp del]

section \<open>The pull request overview panel: handlers\<close>

text \<open>
  A handler awaits collaborators (the pull request model, the repository manager, the
  prompts of the editor). What a collaborator answers is an argument of the handler's
  model: \<open>Inr\<close> the value its promise resolves to, \<open>Inl\<close> the error it rejects with.
  \<open>formatError\<close> (common/utils, not under src) is the parameter \<open>fe\<close>. A handler
  that reads \<open>this._item\<close> takes the item as \<open>it\<close>.
\<close>

record MergeResult =
  merged :: bool
  merge_message :: string

definition checkoutPullRequest ::
  "IRequestMessage \<Rightarrow> bool \<Rightarrow> PullRequestOverviewPanel \<Rightarrow> run" where
  "checkoutPullRequest msg isCurrentlyCheckedOut p =
     returns p [executeCommand ''pr.pick'',
                replyMessage msg (IsCurrentlyCheckedOut isCurrentlyCheckedOut)]"

definition mergePullRequest ::
  "(error \<Rightarrow> string) \<Rightarrow> IRequestMessage \<Rightarrow> error + MergeResult \<Rightarrow> PullRequestOverviewPanel \<Rightarrow> run" where
  "mergePullRequest fe msg outcome p =
     (case outcome of
        Inr result \<Rightarrow>
          returns p
            ([call ''mergePullRequest'', executeCommand ''pr.refreshList'']
             @ (if \<not> merged result
                then [window (showErrorMessage (''Merging PR failed: '' @ merge_message result))]
                else [])
             @ [replyMessage msg (NewState (if merged result then Merged else Open))])
      | Inl e \<Rightarrow>
          returns p
            [call ''mergePullRequest'',
             window (showErrorMessage (''Unable to merge pull request. '' @ fe e)),
             throwError msg EmptyObject])"

definition setReadyForReview ::
  "(error \<Rightarrow> string) \<Rightarrow> IRequestMessage \<Rightarrow> error + bool \<Rightarrow> PullRequestOverviewPanel \<Rightarrow> run" where
  "setReadyForReview fe msg outcome p =
     (case outcome of
        Inr isDraft' \<Rightarrow>
          returns p
            [call ''setReadyForReview'', executeCommand ''pr.refreshList'',
             replyMessage msg (IsDraft isDraft')]
      | Inl e \<Rightarrow>
          returns p
            [call ''setReadyForReview'',
             window (showErrorMessage (''Unable to set PR ready for review. '' @ fe e)),
             throwError msg EmptyObject])"

definition checkoutDefaultBranch ::
  "IRequestMessage \<Rightarrow> error + unit \<Rightarrow> PullRequestOverviewPanel \<Rightarrow> run" where
  "checkoutDefaultBranch msg outcome p =
     (case outcome of
        Inr _ \<Rightarrow> returns p [call ''checkoutDefaultBranch'', replyMessage msg Empty]
      | Inl e \<Rightarrow> rejects p [call ''checkoutDefaultBranch'', replyMessage msg Empty] e)"

text \<open>
  \<open>updateReviewers\<close>: the first reviewer with the review's login gets the review's
  state; with no such reviewer a new entry is pushed; an absent review changes nothing.
\<close>

fun set_first_state :: "string \<Rightarrow> string \<Rightarrow> ReviewState list \<Rightarrow> ReviewState list" where
  "set_first_state l st [] = []"
| "set_first_state l st (r # rs) =
     (if l = login (reviewer r) then r\<lparr>state := st\<rparr> # rs else r # set_first_state l st rs)"

definition updateReviewers ::
  "CommonReviewEvent option \<Rightarrow> PullRequestOverviewPanel \<Rightarrow> PullRequestOverviewPanel" where
  "updateReviewers review p =
     (case review of
        None \<Rightarrow> p
      | Some rv \<Rightarrow>
          (case find (\<lambda>r. login (user rv) = login (reviewer r)) (existingReviewers p) of
             Some _ \<Rightarrow>
               p\<lparr>existingReviewers :=
                   set_first_state (login (user rv)) (review_state rv) (existingReviewers p)\<rparr>
           | None \<Rightarrow>
               p\<lparr>existingReviewers :=
                   existingReviewers p @ [\<lparr>reviewer = user rv, state = review_state rv\<rparr>]\<rparr>))"

definition approvePullRequest ::
  "(error \<Rightarrow> string) \<Rightarrow> IRequestMessage \<Rightarrow> error + CommonReviewEvent option
     \<Rightarrow> PullRequestOverviewPanel \<Rightarrow> run" where
  "approvePullRequest fe msg outcome p =
     (case outcome of
        Inr review \<Rightarrow>
          (let p' = updateReviewers review p
           in returns p'
                [call ''approve'', replyMessage msg (Review review (existingReviewers p')),
                 executeCommand ''pr.refreshList''])
      | Inl e \<Rightarrow>
          returns p
            [call ''approve'',
             window (showErrorMessage (''Approving pull request failed. '' @ fe e)),
             throwError msg (Text (fe e))])"

definition requestChanges ::
  "(error \<Rightarrow> string) \<Rightarrow> IRequestMessage \<Rightarrow> error + CommonReviewEvent option
     \<Rightarrow> PullRequestOverviewPanel \<Rightarrow> run" where
  "requestChanges fe msg outcome p =
     (case outcome of
        Inr review \<Rightarrow>
          (let p' = updateReviewers review p
           in returns p'
                [call ''requestChanges'', replyMessage msg (Review review (existingReviewers p'))])
      | Inl e \<Rightarrow>
          returns p
            [call ''requestChanges'',
             window (showErrorMessage (''Requesting changes failed. '' @ fe e)),
             throwError msg (Text (fe e))])"

definition submitReview ::
  "(error \<Rightarrow> string) \<Rightarrow> IRequestMessage \<Rightarrow> error + CommonReviewEvent option
     \<Rightarrow> PullRequestOverviewPanel \<Rightarrow> run" where
  "submitReview fe msg outcome p =
     (case outcome of
        Inr review \<Rightarrow>
          (let p' = updateReviewers review p
           in returns p'
                [call ''submitReview'', replyMessage msg (Review review (existingReviewers p'))])
      | Inl e \<Rightarrow>
          returns p
            [call ''submitReview'',
             window (showErrorMessage (''Submitting review failed. '' @ fe e)),
             throwError msg (Text (fe e))])"

text \<open>
  \<open>addReviewers\<close>. \<open>picked\<close> is what the prompt answers (\<open>None\<close>: dismissed;
  \<open>Inl\<close>: the prompt or the list of its items failed). Every failure inside the \<open>try\<close>
  ends in the \<open>catch\<close>, which shows the error and replies nothing.
\<close>

definition addReviewers ::
  "(error \<Rightarrow> string) \<Rightarrow> IRequestMessage \<Rightarrow> error + reviewer_item list option \<Rightarrow> error + unit
     \<Rightarrow> PullRequestOverviewPanel \<Rightarrow> run" where
  "addReviewers fe msg picked_r requestReview_r p =
     (case picked_r of
        Inl e \<Rightarrow> returns p [showQuickPick reviewersPick, window (showErrorMessage (fe e))]
      | Inr None \<Rightarrow> returns p [showQuickPick reviewersPick]
      | Inr (Some reviewersToAdd) \<Rightarrow>
          (case requestReview_r of
             Inl e \<Rightarrow>
               returns p
                 [showQuickPick reviewersPick, call ''requestReview'',
                  window (showErrorMessage (fe e))]
           | Inr _ \<Rightarrow>
               (let addedReviewers =
                      map (\<lambda>selected. \<lparr>reviewer = picked_reviewer selected, state = ''REQUESTED''\<rparr>)
                        reviewersToAdd
                in returns (p\<lparr>existingReviewers := existingReviewers p @ addedReviewers\<rparr>)
                     [showQuickPick reviewersPick, call ''requestReview'',
                      replyMessage msg (AddedReviewers addedReviewers)])))"

definition addMilestone ::
  "(error \<Rightarrow> string) \<Rightarrow> IRequestMessage \<Rightarrow> error + milestone_item option \<Rightarrow> error + unit
     \<Rightarrow> PullRequestOverviewPanel \<Rightarrow> run" where
  "addMilestone fe msg picked_r updateMilestone_r p =
     (case picked_r of
        Inl e \<Rightarrow> returns p [showQuickPick milestonePick, window (showErrorMessage (fe e))]
      | Inr None \<Rightarrow> returns p [showQuickPick milestonePick]
      | Inr (Some milestoneToAdd) \<Rightarrow>
          if isMilestoneQuickPickItem milestoneToAdd then
            (case updateMilestone_r of
               Inl e \<Rightarrow>
                 returns p
                   [showQuickPick milestonePick, call ''updateMilestone'',
                    window (showErrorMessage (fe e))]
             | Inr _ \<Rightarrow>
                 returns p
                   [showQuickPick milestonePick, call ''updateMilestone'',
                    replyMessage msg (AddedMilestone (item_milestone milestoneToAdd))])
          else returns p [showQuickPick milestonePick])"

definition removeMilestone ::
  "(error \<Rightarrow> string) \<Rightarrow> IRequestMessage \<Rightarrow> error + unit \<Rightarrow> PullRequestOverviewPanel \<Rightarrow> run" where
  "removeMilestone fe msg updateMilestone_r p =
     (case updateMilestone_r of
        Inr _ \<Rightarrow> returns p [call ''updateMilestone'', replyMessage msg Empty]
      | Inl e \<Rightarrow> returns p [call ''updateMilestone'', window (showErrorMessage (fe e))])"

text \<open>
  \<open>addAssignees\<close> awaits the assignable users before it prompts, and writes the new
  assignees into the item before it awaits the remote call (\<open>assignees?.concat\<close>: an
  absent list stays absent).
\<close>

definition addAssignees ::
  "(error \<Rightarrow> string) \<Rightarrow> IRequestMessage \<Rightarrow> error + unit \<Rightarrow> error + assignee_item list option
     \<Rightarrow> error + unit \<Rightarrow> PullRequestModel \<Rightarrow> PullRequestOverviewPanel \<Rightarrow> run" where
  "addAssignees fe msg getAssignableUsers_r picked_r updateAssignees_r it p =
     (case getAssignableUsers_r of
        Inl e \<Rightarrow> returns p [window (showErrorMessage (fe e))]
      | Inr _ \<Rightarrow>
          (case picked_r of
             Inl e \<Rightarrow> returns p [showQuickPick assigneesPick, window (showErrorMessage (fe e))]
           | Inr None \<Rightarrow> returns p [showQuickPick assigneesPick]
           | Inr (Some assigneesToAdd) \<Rightarrow>
               (let addedAssignees = map picked_assignee assigneesToAdd;
                    p' = p\<lparr>item := Some (it\<lparr>assignees := map_option (\<lambda>as. as @ addedAssignees)
                                                           (assignees it)\<rparr>)\<rparr>
                in case updateAssignees_r of
                     Inl e \<Rightarrow>
                       returns p'
                         [showQuickPick assigneesPick, call ''updateAssignees'',
                          window (showErrorMessage (fe e))]
                   | Inr _ \<Rightarrow>
                       returns p'
                         [showQuickPick assigneesPick, call ''updateAssignees'',
                          replyMessage msg (AddedAssignees addedAssignees)])))"

text \<open>
  \<open>Array.findIndex\<close> answers \<open>-1\<close> when nothing passes, and \<open>splice(index, 1)\<close> counts
  a negative index from the end.
\<close>

fun findIndex :: "('a \<Rightarrow> bool) \<Rightarrow> 'a list \<Rightarrow> int" where
  "findIndex P [] = - 1"
| "findIndex P (x # xs) =
     (if P x then 0 else (let i = findIndex P xs in if i < 0 then - 1 else i + 1))"

definition splice1 :: "int \<Rightarrow> 'a list \<Rightarrow> 'a list" where
  "splice1 i xs =
     (let n = int (length xs);
          start = (if i < 0 then max (n + i) 0 else min i n)
      in take (nat start) xs @ drop (nat start + 1) xs)"

definition args_string :: "Args \<Rightarrow> string option" where
  "args_string a = (case a of StringArg s \<Rightarrow> Some s | _ \<Rightarrow> None)"

definition removeReviewer ::
  "(error \<Rightarrow> string) \<Rightarrow> IRequestMessage \<Rightarrow> error + unit \<Rightarrow> PullRequestOverviewPanel \<Rightarrow> run" where
  "removeReviewer fe msg deleteReviewRequest_r p =
     (case deleteReviewRequest_r of
        Inr _ \<Rightarrow>
          (let index = findIndex (\<lambda>r. Some (login (reviewer r)) = args_string (args msg))
                         (existingReviewers p)
           in returns (p\<lparr>existingReviewers := splice1 index (existingReviewers p)\<rparr>)
                [call ''deleteReviewRequest'', replyMessage msg Empty])
      | Inl e \<Rightarrow> returns p [call ''deleteReviewRequest'', window (showErrorMessage (fe e))])"

definition removeAssignee ::
  "(error \<Rightarrow> string) \<Rightarrow> IRequestMessage \<Rightarrow> error + unit \<Rightarrow> PullRequestModel
     \<Rightarrow> PullRequestOverviewPanel \<Rightarrow> run" where
  "removeAssignee fe msg deleteAssignees_r it p =
     (case deleteAssignees_r of
        Inr _ \<Rightarrow>
          (let new_assignees =
                 (case assignees it of
                    None \<Rightarrow> None
                  | Some as \<Rightarrow>
                      Some (splice1 (findIndex (\<lambda>a. Some (login a) = args_string (args msg)) as) as))
           in returns (p\<lparr>item := Some (it\<lparr>assignees := new_assignees\<rparr>)\<rparr>)
                [call ''deleteAssignees'', replyMessage msg Empty])
      | Inl e \<Rightarrow> returns p [call ''deleteAssignees'', window (showErrorMessage (fe e))])"

text \<open>
  \<open>applyPatch\<close>: the body of the \<open>try\<close> (the match of the diff block, the temporary
  file, \<open>git apply\<close>) is collaborators' work; \<open>outcome\<close> is how it ends.
  \<open>openDiff\<close> returns the collaborator's promise without awaiting it, so its rejection
  passes the \<open>catch\<close>.
\<close>

definition applyPatch ::
  "(error \<Rightarrow> string) \<Rightarrow> IRequestMessage \<Rightarrow> error + unit \<Rightarrow> PullRequestOverviewPanel \<Rightarrow> run" where
  "applyPatch fe msg outcome p =
     (case outcome of
        Inr _ \<Rightarrow> returns p [call ''apply'']
      | Inl e \<Rightarrow>
          returns p [window (showErrorMessage (''Applying patch failed: '' @ fe e))])"

definition openDiff ::
  "IRequestMessage \<Rightarrow> error + unit \<Rightarrow> PullRequestOverviewPanel \<Rightarrow> run" where
  "openDiff msg outcome p =
     (case outcome of
        Inr _ \<Rightarrow> returns p [call ''openDiffFromComment'']
      | Inl e \<Rightarrow> rejects p [call ''openDiffFromComment''] e)"

definition checkMergeability ::
  "IRequestMessage \<Rightarrow> error + string \<Rightarrow> PullRequestOverviewPanel \<Rightarrow> run" where
  "checkMergeability msg outcome p =
     (case outcome of
        Inr m \<Rightarrow> returns p [replyMessage msg (Mergeability m)]
      | Inl e \<Rightarrow> rejects p [] e)"

definition copyPrLink ::
  "error + unit \<Rightarrow> PullRequestModel \<Rightarrow> PullRequestOverviewPanel \<Rightarrow> run" where
  "copyPrLink writeText_r it p =
     (case writeText_r of
        Inr _ \<Rightarrow>
          returns p
            [call ''clipboard.writeText'',
             window (showInformationMessage (''Copied link to PR '' @ title it @ ''!''))]
      | Inl e \<Rightarrow> rejects p [call ''clipboard.writeText''] e)"

definition openOnGitHub :: "error + unit \<Rightarrow> PullRequestOverviewPanel \<Rightarrow> run" where
  "openOnGitHub outcome p =
     (case outcome of
        Inr _ \<Rightarrow> returns p [call ''openPullRequestOnGitHub'']
      | Inl e \<Rightarrow> rejects p [call ''openPullRequestOnGitHub''] e)"

subsection \<open>Branch deletion\<close>

text \<open>
  The candidate actions, in the order the handler pushes them. The default branch is
  compared with \<open>===\<close>: an \<open>undefined\<close> default branch equals no head ref.
\<close>

definition upstream_actions :: "PullRequestOverviewPanel \<Rightarrow> PullRequestModel \<Rightarrow> action list" where
  "upstream_actions p it =
     (if isResolved it then
        (case head it of
           None \<Rightarrow> []
         | Some h \<Rightarrow>
             (let branchHeadRef = ref h;
                  isDefaultBranch = (repositoryDefaultBranch p = Some (ref h))
              in if \<not> isDefaultBranch \<and> \<not> isRemoteHeadDeleted it then
                   [\<lparr>action_label =
                       ''Delete remote branch '' @ remoteName (remote it) @ ''/'' @ branchHeadRef,
                     action_description =
                       Some (normalizedHost (remote it) @ ''/'' @ owner (remote it) @ ''/''
                             @ repositoryName (remote it)),
                     action_type = Upstream,
                     picked = Some True\<rparr>]
                 else []))
      else [])"

definition truthy_string :: "string option \<Rightarrow> bool" where
  "truthy_string s = (case s of None \<Rightarrow> False | Some t \<Rightarrow> t \<noteq> [])"

definition local_actions :: "BranchInfo option \<Rightarrow> bool \<Rightarrow> bool \<Rightarrow> action list" where
  "local_actions branchInfo preferredLocalBranchDeletionMethod preferredRemoteDeletionMethod =
     (case branchInfo of
        None \<Rightarrow> []
      | Some bi \<Rightarrow>
          [\<lparr>action_label = ''Delete local branch '' @ branch bi,
            action_description = None,
            action_type = Local,
            picked = Some preferredLocalBranchDeletionMethod\<rparr>]
          @ (if truthy_string (branch_remote bi) \<and> createdForPullRequest bi \<and> \<not> remoteInUse bi
             then
               [\<lparr>action_label =
                   ''Delete remote '' @ (case branch_remote bi of Some r \<Rightarrow> r | None \<Rightarrow> [])
                   @ '', which is no longer used by any other branch'',
                 action_description = None,
                 action_type = Remote,
                 picked = Some preferredRemoteDeletionMethod\<rparr>]
             else []))"

definition suspend_actions :: "string option \<Rightarrow> action list" where
  "suspend_actions env_remoteName =
     (if env_remoteName = Some ''codespaces''
      then [\<lparr>action_label = ''Suspend Codespace'', action_description = None,
             action_type = Suspend, picked = None\<rparr>]
      else [])"

text \<open>What the handler finds around it.\<close>

record deleteBranch_env =
  branchInfo_r :: "error + BranchInfo option"
  selectLocalBranch :: bool
  selectRemote :: bool
  env_remoteName :: "string option"
  selectedActions :: "action list option"
  isBranchActive :: bool
  workingTreeChanges :: nat
  modal_response :: "string option"

definition candidate_actions ::
  "deleteBranch_env \<Rightarrow> BranchInfo option \<Rightarrow> PullRequestModel \<Rightarrow> PullRequestOverviewPanel
     \<Rightarrow> action list" where
  "candidate_actions d branchInfo it p =
     upstream_actions p it
     @ local_actions branchInfo (selectLocalBranch d) (selectRemote d)
     @ suspend_actions (env_remoteName d)"

text \<open>
  The selected actions run concurrently. The model lists each action's events in the
  order of the selection, and takes every collaborator call of an action to succeed.
  \<open>deletedBranchTypes\<close> first receives the types pushed before any \<open>await\<close> (remote,
  suspend), then those pushed after one (upstream, local), each group in the order of
  the selection. The local action stops without a push when the branch is active, the
  working tree has changes and the modal question is not answered \<open>Yes\<close>.
\<close>

definition local_proceeds :: "deleteBranch_env \<Rightarrow> bool" where
  "local_proceeds d =
     (\<not> (isBranchActive d \<and> workingTreeChanges d \<noteq> 0 \<and> modal_response d \<noteq> Some ''Yes''))"

definition action_events :: "deleteBranch_env \<Rightarrow> action \<Rightarrow> event list" where
  "action_events d a =
     (case action_type a of
        Upstream \<Rightarrow> [call ''folderRepositoryManager.deleteBranch'', call ''repository.fetch'']
      | Local \<Rightarrow>
          (if isBranchActive d then
             (if workingTreeChanges d \<noteq> 0 then
                [modalWarning ''Your local changes will be lost, do you want to continue?'']
                @ (if modal_response d = Some ''Yes''
                   then [executeCommand ''git.cleanAll'', call ''repository.checkout'',
                         call ''repository.deleteBranch'']
                   else [])
              else [call ''repository.checkout'', call ''repository.deleteBranch''])
           else [call ''repository.deleteBranch''])
      | Remote \<Rightarrow> [call ''repository.removeRemote'']
      | Suspend \<Rightarrow> [executeCommand ''github.codespaces.disconnectSuspend''])"

definition deletedBranchTypes :: "deleteBranch_env \<Rightarrow> action list \<Rightarrow> action_type list" where
  "deletedBranchTypes d selected =
     filter (\<lambda>t. t = Remote \<or> t = Suspend) (map action_type selected)
     @ filter (\<lambda>t. t = Upstream \<or> (t = Local \<and> local_proceeds d)) (map action_type selected)"

definition deleteBranch ::
  "IRequestMessage \<Rightarrow> deleteBranch_env \<Rightarrow> PullRequestModel \<Rightarrow> PullRequestOverviewPanel \<Rightarrow> run" where
  "deleteBranch msg d it p =
     (case branchInfo_r d of
        Inl e \<Rightarrow> rejects p [] e
      | Inr branchInfo \<Rightarrow>
          (let actions = candidate_actions d branchInfo it p
           in if actions = [] then
                returns p
                  [window (showWarningMessage
                     (''There is no longer an upstream or local branch for Pull Request #''
                      @ toString (number it))),
                   replyMessage msg Cancelled]
              else
                (case selectedActions d of
                   Some selected \<Rightarrow>
                     returns p
                       ([showQuickPick (actionsPick actions)]
                        @ concat (map (action_events d) selected)
                        @ [call ''refreshPanel'', executeCommand ''pr.refreshList'',
                           postMessage (pr_deleteBranch (deletedBranchTypes d selected))])
                 | None \<Rightarrow>
                     returns p [showQuickPick (actionsPick actions), replyMessage msg Cancelled])))"

subsection \<open>Dispatch\<close>

text \<open>
  The outcomes of the collaborators a message may reach, and the superclass handler
  (\<open>IssueOverviewPanel._onDidReceiveMessage\<close>, not under src) as a parameter: it
  answers whether it handled the message, and its own run.
\<close>

datatype super_result = MESSAGE_UNHANDLED | Handled

record env =
  formatError :: "error \<Rightarrow> string"
  isCurrentlyCheckedOut :: bool
  mergePullRequest_r :: "error + MergeResult"
  setReadyForReview_r :: "error + bool"
  approve_r :: "error + CommonReviewEvent option"
  requestChanges_r :: "error + CommonReviewEvent option"
  submitReview_r :: "error + CommonReviewEvent option"
  checkoutDefaultBranch_r :: "error + unit"
  applyPatch_r :: "error + unit"
  openDiff_r :: "error + unit"
  getMergeability_r :: "error + string"
  reviewers_picked :: "error + reviewer_item list option"
  requestReview_r :: "error + unit"
  milestone_picked :: "error + milestone_item option"
  updateMilestone_r :: "error + unit"
  getAssignableUsers_r :: "error + unit"
  assignees_picked :: "error + assignee_item list option"
  updateAssignees_r :: "error + unit"
  deleteReviewRequest_r :: "error + unit"
  deleteAssignees_r :: "error + unit"
  writeText_r :: "error + unit"
  openOnGitHub_r :: "error + unit"
  deleteBranch_e :: deleteBranch_env

text \<open>
  A handler that reads \<open>this._item\<close> while it is still \<open>undefined\<close> fails on the
  property access; the model makes that one rejection of the dispatch, before any
  event of the handler.
\<close>

definition with_item ::
  "PullRequestOverviewPanel \<Rightarrow> (PullRequestModel \<Rightarrow> PullRequestOverviewPanel \<Rightarrow> run) \<Rightarrow> run" where
  "with_item p handler =
     (case item p of
        None \<Rightarrow> rejects p [] (Error ''TypeError: Cannot read property of undefined'')
      | Some it \<Rightarrow> handler it p)"

definition switch_command ::
  "env \<Rightarrow> IRequestMessage \<Rightarrow> PullRequestOverviewPanel \<Rightarrow> run" where
  "switch_command v msg p =
     (let c = command msg; fe = formatError v in
      if c = ''pr.checkout'' then
        with_item p (\<lambda>it. checkoutPullRequest msg (isCurrentlyCheckedOut v))
      else if c = ''pr.merge'' then with_item p (\<lambda>it. mergePullRequest fe msg (mergePullRequest_r v))
      else if c = ''pr.deleteBranch'' then with_item p (deleteBranch msg (deleteBranch_e v))
      else if c = ''pr.readyForReview'' then
        with_item p (\<lambda>it. setReadyForReview fe msg (setReadyForReview_r v))
      else if c = ''pr.approve'' then with_item p (\<lambda>it. approvePullRequest fe msg (approve_r v))
      else if c = ''pr.request-changes'' then
        with_item p (\<lambda>it. requestChanges fe msg (requestChanges_r v))
      else if c = ''pr.submit'' then with_item p (\<lambda>it. submitReview fe msg (submitReview_r v))
      else if c = ''pr.checkout-default-branch'' then
        checkoutDefaultBranch msg (checkoutDefaultBranch_r v) p
      else if c = ''pr.apply-patch'' then applyPatch fe msg (applyPatch_r v) p
      else if c = ''pr.open-diff'' then with_item p (\<lambda>it. openDiff msg (openDiff_r v))
      else if c = ''pr.checkMergeability'' then
        with_item p (\<lambda>it. checkMergeability msg (getMergeability_r v))
      else if c = ''pr.add-reviewers'' then
        with_item p (\<lambda>it. addReviewers fe msg (reviewers_picked v) (requestReview_r v))
      else if c = ''pr.remove-milestone'' then
        with_item p (\<lambda>it. removeMilestone fe msg (updateMilestone_r v))
      else if c = ''pr.add-milestone'' then
        with_item p (\<lambda>it. addMilestone fe msg (milestone_picked v) (updateMilestone_r v))
      else if c = ''pr.add-assignees'' then
        with_item p
          (addAssignees fe msg (getAssignableUsers_r v) (assignees_picked v) (updateAssignees_r v))
      else if c = ''pr.remove-reviewer'' then
        with_item p (\<lambda>it. removeReviewer fe msg (deleteReviewRequest_r v))
      else if c = ''pr.remove-assignee'' then
        with_item p (removeAssignee fe msg (deleteAssignees_r v))
      else if c = ''pr.copy-prlink'' then with_item p (copyPrLink (writeText_r v))
      else if c = ''pr.openOnGitHub'' then with_item p (\<lambda>it. openOnGitHub (openOnGitHub_r v))
      else returns p [])"

text \<open>The command strings of the \<open>switch\<close>.\<close>

definition recognized_commands :: "string list" where
  "recognized_commands =
     [''pr.checkout'', ''pr.merge'', ''pr.deleteBranch'', ''pr.readyForReview'', ''pr.approve'',
      ''pr.request-changes'', ''pr.submit'', ''pr.checkout-default-branch'', ''pr.apply-patch'',
      ''pr.open-diff'', ''pr.checkMergeability'', ''pr.add-reviewers'', ''pr.remove-milestone'',
      ''pr.add-milestone'', ''pr.add-assignees'', ''pr.remove-reviewer'', ''pr.remove-assignee'',
      ''pr.copy-prlink'', ''pr.openOnGitHub'']"

text \<open>
  \<open>_onDidReceiveMessage\<close>: the superclass handler runs first; the \<open>switch\<close> runs only
  when it answered \<open>MESSAGE_UNHANDLED\<close>, on the panel it left and after its events.
\<close>

definition seq_run :: "run \<Rightarrow> run \<Rightarrow> run" where
  "seq_run r1 r2 = r2\<lparr>events := events r1 @ events r2\<rparr>"

definition onDidReceiveMessage ::
  "(IRequestMessage \<Rightarrow> PullRequestOverviewPanel \<Rightarrow> super_result \<times> run) \<Rightarrow> env
     \<Rightarrow> IRequestMessage \<Rightarrow> PullRequestOverviewPanel \<Rightarrow> run" where
  "onDidReceiveMessage super_onDidReceiveMessage v msg p =
     (case super_onDidReceiveMessage msg p of
        (result, r) \<Rightarrow>
          if thrown r \<noteq> None then r
          else if result \<noteq> MESSAGE_UNHANDLED then r
          else seq_run r (switch_command v msg (after r)))"

section \<open>The pull request overview panel: update and creation\<close>

text \<open>
  The seven requests \<open>updatePullRequest\<close> joins with \<open>Promise.all\<close>, each with its
  outcome. The join rejects as soon as one request rejects; which rejection comes first
  is a matter of timing, and the model takes the first in the order of the array.
\<close>

record fetched =
  resolvePullRequest :: "error + PullRequestModel option"
  getTimelineEvents :: "error + TimelineEvent list"
  getPullRequestRepositoryDefaultBranch :: "error + string"
  getStatusChecks :: "error + PullRequestChecks option"
  getReviewRequests :: "error + IAccount list"
  getPullRequestRepositoryAccessAndMergeMethods :: "error + RepoAccessAndMergeMethods"
  getBranchNameForPullRequest :: "error + BranchInfo option"

type_synonym joined =
  "PullRequestModel option \<times> TimelineEvent list \<times> string \<times> PullRequestChecks option
   \<times> IAccount list \<times> RepoAccessAndMergeMethods \<times> BranchInfo option"

definition and_then :: "error + 'a \<Rightarrow> ('a \<Rightarrow> error + 'b) \<Rightarrow> error + 'b" where
  "and_then r k = (case r of Inl e \<Rightarrow> Inl e | Inr x \<Rightarrow> k x)"

definition Promise_all :: "fetched \<Rightarrow> error + joined" where
  "Promise_all f =
     and_then (resolvePullRequest f) (\<lambda>pullRequest.
     and_then (getTimelineEvents f) (\<lambda>timelineEvents.
     and_then (getPullRequestRepositoryDefaultBranch f) (\<lambda>defaultBranch.
     and_then (getStatusChecks f) (\<lambda>status.
     and_then (getReviewRequests f) (\<lambda>requestedReviewers.
     and_then (getPullRequestRepositoryAccessAndMergeMethods f) (\<lambda>repositoryAccess.
     and_then (getBranchNameForPullRequest f) (\<lambda>branchInfo.
       Inr (pullRequest, timelineEvents, defaultBranch, status, requestedReviewers,
            repositoryAccess, branchInfo))))))))"

text \<open>
  What the \<open>then\<close> branch asks of its surroundings without awaiting: \<open>formatError\<close>,
  \<open>parseReviewers\<close> (utils, not under src), the configured merge method, whether the
  requested pull request is the active one, the current user, \<open>isInCodespaces\<close>.
\<close>

record host_env =
  host_formatError :: "error \<Rightarrow> string"
  parseReviewers :: "IAccount list \<Rightarrow> TimelineEvent list \<Rightarrow> IAccount \<Rightarrow> ReviewState list"
  preferredMergeMethod :: "MergeMethod option"
  activePullRequest_equals :: bool
  currentUser :: IAccount
  isInCodespaces :: bool

definition isCrossRepository :: "PullRequestModel \<Rightarrow> bool" where
  "isCrossRepository pullRequest =
     (case head pullRequest of
        None \<Rightarrow> False
      | Some h \<Rightarrow> repositoryCloneUrl (base pullRequest) \<noteq> repositoryCloneUrl h)"

definition initialize_snapshot ::
  "host_env \<Rightarrow> PullRequestModel \<Rightarrow> TimelineEvent list \<Rightarrow> string \<Rightarrow> PullRequestChecks option
     \<Rightarrow> RepoAccessAndMergeMethods \<Rightarrow> BranchInfo option \<Rightarrow> ReviewState list \<Rightarrow> snapshot" where
  "initialize_snapshot h pullRequest timelineEvents defaultBranch status repositoryAccess
     branchInfo reviewers =
     \<lparr>snap_number = number pullRequest,
      snap_title = title pullRequest,
      snap_url = html_url pullRequest,
      snap_author = author pullRequest,
      snap_state = item_state pullRequest,
      snap_events = timelineEvents,
      snap_isCurrentlyCheckedOut = activePullRequest_equals h,
      snap_isRemoteBaseDeleted = isRemoteBaseDeleted pullRequest,
      snap_base = label (base pullRequest),
      snap_isRemoteHeadDeleted = isRemoteHeadDeleted pullRequest,
      snap_isLocalHeadDeleted = (branchInfo = None),
      snap_head = (case head pullRequest of Some r \<Rightarrow> label r | None \<Rightarrow> []),
      snap_repositoryDefaultBranch = defaultBranch,
      snap_canEdit = (hasWritePermission repositoryAccess \<or> canEdit pullRequest),
      snap_hasWritePermission = hasWritePermission repositoryAccess,
      snap_status =
        (case status of Some st \<Rightarrow> st | None \<Rightarrow> \<lparr>check_state = None, statuses = []\<rparr>),
      snap_reviewers = reviewers,
      snap_isDraft = isDraft pullRequest,
      snap_mergeMethodsAvailability = mergeMethodsAvailability repositoryAccess,
      snap_defaultMergeMethod =
        getDefaultMergeMethod (mergeMethodsAvailability repositoryAccess) (preferredMergeMethod h),
      snap_isIssue = False,
      snap_milestone = milestone pullRequest,
      snap_assignees = assignees pullRequest,
      snap_continueOnGitHub = (isCrossRepository pullRequest \<and> isInCodespaces h),
      snap_isAuthor = (login (currentUser h) = login (author pullRequest))\<rparr>"

text \<open>The error thrown in the \<open>then\<close> branch when the pull request did not resolve.\<close>

definition fail_to_resolve :: "PullRequestModel \<Rightarrow> error" where
  "fail_to_resolve pullRequestModel =
     Error (''Fail to resolve Pull Request #'' @ toString (number pullRequestModel)
            @ '' in '' @ owner (remote pullRequestModel) @ ''/''
            @ repositoryName (remote pullRequestModel))"

text \<open>
  \<open>updatePullRequest\<close>. Its promise never rejects: the \<open>catch\<close> shows whatever the join
  or the \<open>then\<close> branch throws. The result is the panel and the events.
\<close>

definition updatePullRequest ::
  "host_env \<Rightarrow> fetched \<Rightarrow> PullRequestModel \<Rightarrow> PullRequestOverviewPanel
     \<Rightarrow> PullRequestOverviewPanel \<times> event list" where
  "updatePullRequest h f pullRequestModel p =
     (case Promise_all f of
        Inl e \<Rightarrow> (p, [window (showErrorMessage (host_formatError h e))])
      | Inr (pullRequest_opt, timelineEvents, defaultBranch, status, requestedReviewers,
             repositoryAccess, branchInfo) \<Rightarrow>
          (case pullRequest_opt of
             None \<Rightarrow>
               (p, [window (showErrorMessage (host_formatError h
                      (fail_to_resolve pullRequestModel)))])
           | Some pullRequest \<Rightarrow>
               (let reviewers = parseReviewers h requestedReviewers timelineEvents (author pullRequest);
                    p' = p\<lparr>item := Some pullRequest,
                           repositoryDefaultBranch := Some defaultBranch,
                           panel_title := ''Pull Request #'' @ toString (number pullRequestModel),
                           existingReviewers := reviewers\<rparr>
                in (p', [postMessage (pr_initialize
                           (initialize_snapshot h pullRequest timelineEvents defaultBranch status
                              repositoryAccess branchInfo reviewers))]))))"







section \<open>Vocabulary of the properties\<close>

text \<open>The head ref of the item is the repository's default branch.\<close>

definition head_is_default_branch :: "PullRequestOverviewPanel \<Rightarrow> PullRequestModel \<Rightarrow> bool" where
  "head_is_default_branch p it =
     (case head it of None \<Rightarrow> False | Some h \<Rightarrow> repositoryDefaultBranch p = Some (ref h))"

definition upstream_offered :: "action list \<Rightarrow> bool" where
  "upstream_offered actions = list_ex (\<lambda>a. action_type a = Upstream) actions"

text \<open>One of the seven joined requests rejects.\<close>

definition any_fetch_fails :: "fetched \<Rightarrow> bool" where
  "any_fetch_fails f =
     (isl (resolvePullRequest f) \<or> isl (getTimelineEvents f)
      \<or> isl (getPullRequestRepositoryDefaultBranch f) \<or> isl (getStatusChecks f)
      \<or> isl (getReviewRequests f) \<or> isl (getPullRequestRepositoryAccessAndMergeMethods f)
      \<or> isl (getBranchNameForPullRequest f))"

fun is_error_notification :: "event \<Rightarrow> bool" where
  "is_error_notification (window (showErrorMessage _)) = True"
| "is_error_notification _ = False"

fun is_initialize :: "event \<Rightarrow> bool" where
  "is_initialize (postMessage (pr_initialize _)) = True"
| "is_initialize _ = False"





section \<open>Sample values\<close>

text \<open>A pull request, a panel showing it and their surroundings, for the concrete runs.\<close>

definition alice :: IAccount where
  "alice = \<lparr>login = ''alice'', name = ''Alice''\<rparr>"

definition bob :: IAccount where
  "bob = \<lparr>login = ''bob'', name = ''Bob''\<rparr>"

definition sample_pr :: PullRequestModel where
  "sample_pr =
     \<lparr>number = 7, title = ''Fix typo'', html_url = ''https://github.com/octo/app/pull/7'',
      author = alice, item_state = Open,
      base = \<lparr>ref = ''main'', label = ''octo:main'',
              repositoryCloneUrl = ''https://github.com/octo/app''\<rparr>,
      head = Some \<lparr>ref = ''fix-typo'', label = ''octo:fix-typo'',
                   repositoryCloneUrl = ''https://github.com/octo/app''\<rparr>,
      isRemoteBaseDeleted = False, isRemoteHeadDeleted = False, isDraft = False,
      remote = \<lparr>remoteName = ''origin'', normalizedHost = ''github.com'', owner = ''octo'',
                repositoryName = ''app''\<rparr>,
      milestone = None, assignees = Some [], canEdit = False\<rparr>"

text \<open>The same pull request, opened from the default branch.\<close>

definition pr_from_main :: PullRequestModel where
  "pr_from_main =
     sample_pr\<lparr>head := Some \<lparr>ref = ''main'', label = ''octo:main'',
                              repositoryCloneUrl = ''https://github.com/octo/app''\<rparr>\<rparr>"

definition sample_panel :: PullRequestOverviewPanel where
  "sample_panel =
     \<lparr>panel_id = 0, item = Some sample_pr, repositoryDefaultBranch = Some ''main'',
      existingReviewers = [\<lparr>reviewer = bob, state = ''REQUESTED''\<rparr>],
      folderRepositoryManager = 0, changeActivePullRequestListener = Some 0,
      panel_title = ''Pull Request #7'', html = Some ''7''\<rparr>"

definition sample_message :: "string \<Rightarrow> IRequestMessage" where
  "sample_message c = \<lparr>req = ''42'', command = c, args = NoArgs\<rparr>"

definition sample_deleteBranch_env :: deleteBranch_env where
  "sample_deleteBranch_env =
     \<lparr>branchInfo_r = Inr None, selectLocalBranch = True, selectRemote = False,
      env_remoteName = None, selectedActions = None, isBranchActive = False,
      workingTreeChanges = 0, modal_response = None\<rparr>"

definition not_found :: error where
  "not_found = Error ''Not Found''"

text \<open>Surroundings in which every remote mutation fails.\<close>

definition failing_env :: env where
  "failing_env =
     \<lparr>formatError = message, isCurrentlyCheckedOut = False,
      mergePullRequest_r = Inl not_found, setReadyForReview_r = Inl not_found,
      approve_r = Inl not_found, requestChanges_r = Inl not_found,
      submitReview_r = Inl not_found, checkoutDefaultBranch_r = Inr (),
      applyPatch_r = Inr (), openDiff_r = Inr (), getMergeability_r = Inr ''MERGEABLE'',
      reviewers_picked = Inr (Some [\<lparr>reviewer_label = ''alice'', picked_reviewer = alice\<rparr>]),
      requestReview_r = Inl not_found,
      milestone_picked = Inr None, updateMilestone_r = Inl not_found,
      getAssignableUsers_r = Inr (),
      assignees_picked = Inr (Some [\<lparr>assignee_label = ''alice'', picked_assignee = alice\<rparr>]),
      updateAssignees_r = Inl not_found, deleteReviewRequest_r = Inl not_found,
      deleteAssignees_r = Inl not_found, writeText_r = Inr (), openOnGitHub_r = Inr (),
      deleteBranch_e = sample_deleteBranch_env\<rparr>"

text \<open>A superclass handler that recognizes nothing and does nothing.\<close>

definition super_unhandled ::
  "IRequestMessage \<Rightarrow> PullRequestOverviewPanel \<Rightarrow> super_result \<times> run" where
  "super_unhandled msg p = (MESSAGE_UNHANDLED, returns p [])"

definition sample_parseReviewers ::
  "IAccount list \<Rightarrow> TimelineEvent list \<Rightarrow> IAccount \<Rightarrow> ReviewState list" where
  "sample_parseReviewers requested timeline pr_author =
     map (\<lambda>a. \<lparr>reviewer = a, state = ''REQUESTED''\<rparr>) requested"

definition sample_host :: host_env where
  "sample_host =
     \<lparr>host_formatError = message, parseReviewers = sample_parseReviewers,
      preferredMergeMethod = Some Squash, activePullRequest_equals = False,
      currentUser = bob, isInCodespaces = False\<rparr>"

definition sample_fetched :: fetched where
  "sample_fetched =
     \<lparr>resolvePullRequest = Inr (Some sample_pr), getTimelineEvents = Inr [],
      getPullRequestRepositoryDefaultBranch = Inr ''main'', getStatusChecks = Inr None,
      getReviewRequests = Inr [bob],
      getPullRequestRepositoryAccessAndMergeMethods =
        Inr \<lparr>hasWritePermission = True,
             mergeMethodsAvailability = [Merge \<mapsto> True, Squash \<mapsto> False, Rebase \<mapsto> True]\<rparr>,
      getBranchNameForPullRequest = Inr None\<rparr>"


section \<open>Properties of the default merge method\<close>

lemma find_enabled_methods:
  "find (enabled a) methods = first_enabled_in_fixed_order a"
  by (simp add: methods_def enabled_def first_enabled_in_fixed_order_def)

lemma enabled_hasOwnProperty: "enabled a p \<Longrightarrow> hasOwnProperty a p"
  by (simp add: enabled_def hasOwnProperty_def)

lemma getDefaultMergeMethod_cases:
  "getDefaultMergeMethod a userPreferred =
     (if preferred_available a userPreferred then userPreferred
      else first_enabled_in_fixed_order a)"
proof (cases userPreferred)
  case None
  then show ?thesis
    by (simp add: getDefaultMergeMethod_def preferred_available_def find_enabled_methods)
next
  case (Some p)
  show ?thesis
  proof (cases "enabled a p")
    case True
    with Some enabled_hasOwnProperty [OF True] show ?thesis
      by (simp add: getDefaultMergeMethod_def preferred_available_def enabled_def)
  next
    case False
    with Some show ?thesis
      by (simp add: getDefaultMergeMethod_def preferred_available_def find_enabled_methods
            enabled_def)
  qed
qed

text \<open>
  C1. \<open>getDefaultMergeMethod\<close> returns the user's preferred method when that method is
  present and enabled in the availability map; otherwise it returns the first enabled
  method in the fixed order merge, squash, rebase.
\<close>

theorem getDefaultMergeMethod_preferred_or_first:
  "getDefaultMergeMethod a userPreferred =
     (if preferred_available a userPreferred then userPreferred
      else first_enabled_in_fixed_order a)"
  by (rule getDefaultMergeMethod_cases)

theorem getDefaultMergeMethod_preferred_or_first_witness:
  "getDefaultMergeMethod [Merge \<mapsto> True, Squash \<mapsto> False, Rebase \<mapsto> True] (Some Squash) = Some Merge
   \<and> getDefaultMergeMethod [Merge \<mapsto> True, Rebase \<mapsto> True] (Some Rebase) = Some Rebase"
  using getDefaultMergeMethod_preferred_or_first
          [of "[Merge \<mapsto> True, Squash \<mapsto> False, Rebase \<mapsto> True]" "Some Squash"]
        getDefaultMergeMethod_preferred_or_first
          [of "[Merge \<mapsto> True, Rebase \<mapsto> True]" "Some Rebase"]
  by (simp add: preferred_available_def first_enabled_in_fixed_order_def)

text \<open>
  C10. The result of \<open>getDefaultMergeMethod\<close> is a method exactly when at least one of
  merge, squash, rebase is enabled; with all three disabled the lookup finds nothing
  and the asserted result is \<open>undefined\<close>, whatever the preference.
\<close>

theorem getDefaultMergeMethod_undefined_iff:
  "(getDefaultMergeMethod a userPreferred = None)
     = (a Merge \<noteq> Some True \<and> a Squash \<noteq> Some True \<and> a Rebase \<noteq> Some True)"
proof (cases "preferred_available a userPreferred")
  case True
  then obtain p where p: "userPreferred = Some p" "a p = Some True"
    by (auto simp add: preferred_available_def split: option.splits)
  from p(2) have "a Merge = Some True \<or> a Squash = Some True \<or> a Rebase = Some True"
    by (cases p) simp_all
  with True p show ?thesis
    by (auto simp add: getDefaultMergeMethod_cases)
next
  case False
  then show ?thesis
    by (simp add: getDefaultMergeMethod_cases first_enabled_in_fixed_order_def)
qed

theorem getDefaultMergeMethod_undefined_iff_witness:
  "getDefaultMergeMethod [Merge \<mapsto> False, Squash \<mapsto> False, Rebase \<mapsto> False] (Some Squash) = None
   \<and> getDefaultMergeMethod Map.empty None = None
   \<and> getDefaultMergeMethod [Squash \<mapsto> True] None \<noteq> None"
  using getDefaultMergeMethod_undefined_iff
          [of "[Merge \<mapsto> False, Squash \<mapsto> False, Rebase \<mapsto> False]" "Some Squash"]
        getDefaultMergeMethod_undefined_iff [of Map.empty None]
        getDefaultMergeMethod_undefined_iff [of "[Squash \<mapsto> True]" None]
  by simp

section \<open>Properties of the proxy agent selector\<close>






section \<open>Properties of branch deletion\<close>

lemma upstream_in_upstream_actions:
  "upstream_offered (upstream_actions p it)
     = (isResolved it \<and> \<not> head_is_default_branch p it \<and> \<not> isRemoteHeadDeleted it)"
  by (cases "head it")
     (auto simp add: upstream_offered_def upstream_actions_def isResolved_def
        head_is_default_branch_def Let_def)

lemma no_upstream_in_local_actions: "\<not> upstream_offered (local_actions bi l r)"
  by (cases bi) (auto simp add: upstream_offered_def local_actions_def)

lemma no_upstream_in_suspend_actions: "\<not> upstream_offered (suspend_actions n)"
  by (auto simp add: upstream_offered_def suspend_actions_def)

lemma upstream_offered_append:
  "upstream_offered (xs @ ys) = (upstream_offered xs \<or> upstream_offered ys)"
  by (simp add: upstream_offered_def)

lemma upstream_actions_picked:
  "list_all (\<lambda>a. action_type a = Upstream \<and> picked a = Some True) (upstream_actions p it)"
  by (cases "head it") (simp_all add: upstream_actions_def Let_def)

lemma local_actions_types:
  "list_all (\<lambda>a. action_type a \<noteq> Upstream) (local_actions bi l r)"
  by (cases bi) (simp_all add: local_actions_def)

lemma suspend_actions_types:
  "list_all (\<lambda>a. action_type a \<noteq> Upstream) (suspend_actions n)"
  by (simp add: suspend_actions_def)

lemma candidate_actions_picked:
  "list_all (\<lambda>a. action_type a = Upstream \<longrightarrow> picked a = Some True)
     (candidate_actions d bi it p)"
  using upstream_actions_picked [of p it]
        local_actions_types [of bi "selectLocalBranch d" "selectRemote d"]
        suspend_actions_types [of "env_remoteName d"]
  unfolding candidate_actions_def list_all_iff by auto

text \<open>
  C3. The candidate list of the branch-deletion handler holds the upstream action if
  and only if the pull request is resolved, its head ref is not the repository's
  default branch and the remote head is not already deleted; an upstream action in the
  list is picked by default. In particular a head ref equal to the default branch
  keeps the upstream action out, whatever the other inputs.
\<close>

theorem upstream_action_offered_iff:
  "upstream_offered (candidate_actions d bi it p)
     = (isResolved it \<and> \<not> head_is_default_branch p it \<and> \<not> isRemoteHeadDeleted it)
   \<and> (\<forall>a \<in> set (candidate_actions d bi it p). action_type a = Upstream \<longrightarrow> picked a = Some True)
   \<and> (head_is_default_branch p it \<longrightarrow> \<not> upstream_offered (candidate_actions d bi it p))"
proof -
  have iff: "upstream_offered (candidate_actions d bi it p)
     = (isResolved it \<and> \<not> head_is_default_branch p it \<and> \<not> isRemoteHeadDeleted it)"
    by (simp add: candidate_actions_def upstream_offered_append upstream_in_upstream_actions
          no_upstream_in_local_actions no_upstream_in_suspend_actions)
  have pick: "\<forall>a \<in> set (candidate_actions d bi it p).
                action_type a = Upstream \<longrightarrow> picked a = Some True"
    using candidate_actions_picked [of d bi it p] by (simp add: list_all_iff)
  from iff pick show ?thesis by simp
qed

theorem upstream_action_offered_iff_witness:
  "upstream_offered (candidate_actions sample_deleteBranch_env None sample_pr sample_panel)
   \<and> \<not> upstream_offered (candidate_actions sample_deleteBranch_env None pr_from_main sample_panel)"
  using upstream_action_offered_iff [of sample_deleteBranch_env None sample_pr sample_panel]
        upstream_action_offered_iff [of sample_deleteBranch_env None pr_from_main sample_panel]
  by (simp add: isResolved_def head_is_default_branch_def sample_pr_def pr_from_main_def
        sample_panel_def)

text \<open>
  C9. When the candidate list is empty, the branch-deletion handler replies to the
  request with \<open>cancelled\<close> right after its warning, and shows no prompt: these two
  events are all it does.
\<close>

theorem deleteBranch_no_actions_cancels:
  assumes "branchInfo_r d = Inr bi" and "candidate_actions d bi it p = []"
  shows "deleteBranch msg d it p =
           returns p
             [window (showWarningMessage
                (''There is no longer an upstream or local branch for Pull Request #''
                 @ toString (number it))),
              replyMessage msg Cancelled]"
  using assms by (simp add: deleteBranch_def)

theorem deleteBranch_no_actions_cancels_witness:
  "deleteBranch (sample_message ''pr.deleteBranch'') sample_deleteBranch_env pr_from_main
     sample_panel =
     returns sample_panel
       [window (showWarningMessage
          ''There is no longer an upstream or local branch for Pull Request #7''),
        replyMessage (sample_message ''pr.deleteBranch'') Cancelled]"
proof -
  have a: "branchInfo_r sample_deleteBranch_env = Inr None"
    by (simp add: sample_deleteBranch_env_def)
  have u: "upstream_actions sample_panel pr_from_main = []"
    by (simp add: upstream_actions_def pr_from_main_def sample_pr_def sample_panel_def
          isResolved_def Let_def)
  have b: "candidate_actions sample_deleteBranch_env None pr_from_main sample_panel = []"
    by (simp add: candidate_actions_def u local_actions_def suspend_actions_def
          sample_deleteBranch_env_def)
  have n: "toString (number pr_from_main) = ''7''"
    by (simp add: pr_from_main_def sample_pr_def toString.simps digit_def)
  from deleteBranch_no_actions_cancels [OF a b, of "sample_message ''pr.deleteBranch''"] n
  show ?thesis by simp
qed

section \<open>Properties of the dispatch and of the handlers\<close>

lemma switch_command_default:
  "command msg \<notin> set recognized_commands \<Longrightarrow> switch_command v msg p = returns p []"
  by (simp add: recognized_commands_def switch_command_def)


text \<open>
  C5. For a message whose command is none of the recognized commands and which the
  superclass handler answers with \<open>MESSAGE_UNHANDLED\<close>, the dispatch adds nothing to
  what the superclass handler did: no reply or other event, no change of the panel,
  no error. When the superclass handler did nothing, the dispatch is a no-op.
\<close>

theorem onDidReceiveMessage_unrecognized:
  assumes "command msg \<notin> set recognized_commands"
    and "super msg p = (MESSAGE_UNHANDLED, r)"
  shows "onDidReceiveMessage super v msg p = r"
  using assms
  by (simp add: onDidReceiveMessage_def switch_command_default seq_run_def returns_def)

theorem onDidReceiveMessage_unrecognized_witness:
  "onDidReceiveMessage super_unhandled failing_env (sample_message ''pr.unknown'') sample_panel
     = returns sample_panel []"
proof -
  have c: "command (sample_message ''pr.unknown'') \<notin> set recognized_commands"
    by (simp add: sample_message_def recognized_commands_def)
  have s: "super_unhandled (sample_message ''pr.unknown'') sample_panel
             = (MESSAGE_UNHANDLED, returns sample_panel [])"
    by (simp add: super_unhandled_def)
  from onDidReceiveMessage_unrecognized
         [OF c, of super_unhandled sample_panel "returns sample_panel []" failing_env, OF s]
  show ?thesis .
qed




section \<open>Properties of update and creation\<close>

lemma and_then_Inl: "and_then (Inl e) k = Inl e"
  by (simp add: and_then_def)

lemma and_then_Inr: "and_then (Inr x) k = k x"
  by (simp add: and_then_def)

lemma Promise_all_fails:
  assumes "any_fetch_fails f"
  shows "\<exists>e. Promise_all f = Inl e"
proof -
  obtain r1 r2 r3 r4 r5 r6 r7 where r:
    "resolvePullRequest f = r1" "getTimelineEvents f = r2"
    "getPullRequestRepositoryDefaultBranch f = r3" "getStatusChecks f = r4"
    "getReviewRequests f = r5" "getPullRequestRepositoryAccessAndMergeMethods f = r6"
    "getBranchNameForPullRequest f = r7"
    by simp
  from assms show ?thesis
    unfolding Promise_all_def any_fetch_fails_def r
    by (cases r1; cases r2; cases r3; cases r4; cases r5; cases r6; cases r7)
       (simp_all add: and_then_Inl and_then_Inr)
qed

lemma Promise_all_succeeds:
  assumes "Promise_all f = Inr j"
  shows "\<not> any_fetch_fails f \<and> resolvePullRequest f = Inr (fst j)"
proof -
  obtain r1 r2 r3 r4 r5 r6 r7 where r:
    "resolvePullRequest f = r1" "getTimelineEvents f = r2"
    "getPullRequestRepositoryDefaultBranch f = r3" "getStatusChecks f = r4"
    "getReviewRequests f = r5" "getPullRequestRepositoryAccessAndMergeMethods f = r6"
    "getBranchNameForPullRequest f = r7"
    by simp
  from assms show ?thesis
    unfolding Promise_all_def any_fetch_fails_def r
    by (cases r1; cases r2; cases r3; cases r4; cases r5; cases r6; cases r7)
       (auto simp add: and_then_Inl and_then_Inr)
qed

lemma updatePullRequest_join_fails:
  assumes "Promise_all f = Inl e"
  shows "updatePullRequest h f m p = (p, [window (showErrorMessage (host_formatError h e))])"
  using assms by (simp add: updatePullRequest_def)

lemma updatePullRequest_unresolved:
  assumes "Promise_all f = Inr j" and "fst j = None"
  shows "updatePullRequest h f m p =
           (p, [window (showErrorMessage (host_formatError h (fail_to_resolve m)))])"
  using assms by (cases j) (simp add: updatePullRequest_def)


lemma updatePullRequest_failure:
  assumes "any_fetch_fails f \<or> resolvePullRequest f = Inr None"
  shows "\<exists>e. updatePullRequest h f m p = (p, [window (showErrorMessage (host_formatError h e))])"
proof (cases "Promise_all f")
  case (Inl e)
  then show ?thesis using updatePullRequest_join_fails by blast
next
  case (Inr j)
  with Promise_all_succeeds [OF Inr] assms have "fst j = None" by simp
  with Inr show ?thesis using updatePullRequest_unresolved by blast
qed

lemma updatePullRequest_posted:
  assumes "list_ex is_initialize (snd (updatePullRequest h f m p))"
  shows "\<not> any_fetch_fails f \<and> (\<exists>pr. resolvePullRequest f = Inr (Some pr))"
proof (cases "Promise_all f")
  case (Inl e)
  with assms show ?thesis by (simp add: updatePullRequest_def)
next
  case (Inr j)
  show ?thesis
  proof (cases "fst j")
    case None
    with Inr assms show ?thesis by (cases j) (simp add: updatePullRequest_def)
  next
    case (Some pr)
    with Promise_all_succeeds [OF Inr] show ?thesis by simp
  qed
qed

text \<open>
  C7. When the pull request resolves to nothing, or one of the seven joined requests
  fails, \<open>updatePullRequest\<close> leaves the panel as it was (item, default branch,
  reviewers and all) and shows one error notification, which is its only event. The
  \<open>pr.initialize\<close> snapshot is posted only when all seven requests succeed and the
  pull request resolves.
\<close>

theorem updatePullRequest_failure_keeps_panel:
  "(any_fetch_fails f \<or> resolvePullRequest f = Inr None \<longrightarrow>
      fst (updatePullRequest h f m p) = p
      \<and> length (snd (updatePullRequest h f m p)) = 1
      \<and> list_all is_error_notification (snd (updatePullRequest h f m p)))
   \<and> (list_ex is_initialize (snd (updatePullRequest h f m p)) \<longrightarrow>
        \<not> any_fetch_fails f \<and> (\<exists>pr. resolvePullRequest f = Inr (Some pr)))"
proof -
  have a: "fst (updatePullRequest h f m p) = p
      \<and> length (snd (updatePullRequest h f m p)) = 1
      \<and> list_all is_error_notification (snd (updatePullRequest h f m p))"
    if "any_fetch_fails f \<or> resolvePullRequest f = Inr None"
  proof -
    from updatePullRequest_failure [OF that, of h m p]
    obtain e where
      "updatePullRequest h f m p = (p, [window (showErrorMessage (host_formatError h e))])"
      by blast
    then show ?thesis by simp
  qed
  from a updatePullRequest_posted [of h f m p] show ?thesis by blast
qed

theorem updatePullRequest_failure_keeps_panel_witness:
  "fst (updatePullRequest sample_host (sample_fetched\<lparr>resolvePullRequest := Inr None\<rparr>)
          sample_pr sample_panel) = sample_panel
   \<and> list_all is_error_notification
        (snd (updatePullRequest sample_host
                (sample_fetched\<lparr>getStatusChecks := Inl not_found\<rparr>) sample_pr sample_panel))
   \<and> \<not> any_fetch_fails sample_fetched
   \<and> list_ex is_initialize (snd (updatePullRequest sample_host sample_fetched sample_pr sample_panel))"
proof -
  have a: "resolvePullRequest (sample_fetched\<lparr>resolvePullRequest := Inr None\<rparr>) = Inr None"
    by simp
  have b: "any_fetch_fails (sample_fetched\<lparr>getStatusChecks := Inl not_found\<rparr>)"
    by (simp add: any_fetch_fails_def)
  have p: "Promise_all sample_fetched =
             Inr (Some sample_pr, [], ''main'', None, [bob],
                  \<lparr>hasWritePermission = True,
                   mergeMethodsAvailability = [Merge \<mapsto> True, Squash \<mapsto> False, Rebase \<mapsto> True]\<rparr>,
                  None)"
    by (simp add: Promise_all_def sample_fetched_def and_then_def)
  have c: "list_ex is_initialize
             (snd (updatePullRequest sample_host sample_fetched sample_pr sample_panel))"
    by (simp add: updatePullRequest_def p Let_def)
  from updatePullRequest_failure_keeps_panel
         [of "sample_fetched\<lparr>resolvePullRequest := Inr None\<rparr>" sample_host sample_pr sample_panel]
       updatePullRequest_failure_keeps_panel
         [of "sample_fetched\<lparr>getStatusChecks := Inl not_found\<rparr>" sample_host sample_pr sample_panel]
       updatePullRequest_failure_keeps_panel [of sample_fetched sample_host sample_pr sample_panel]
       a b c
  show ?thesis by simp
qed







end
